theory Spec2Isabelle
  imports Main "HOL-Library.Word"
begin

unbundle bit_operations_syntax

section \<open>Compact integers\<close>

text \<open>
  \<^verbatim>\<open>ecsl/compact/detail/Storage.hpp\<close> keeps a value of type \<open>T\<close> in an array
  \<open>memory_t m_data[sizeof(T)]\<close> and moves it in and out with \<open>std::memcpy\<close>;
  \<^verbatim>\<open>ecsl/compact/Integer.hpp\<close> wraps that storage for integral \<open>T\<close>.

  An integral type of \<open>w\<close> bits is \<open>'a word\<close> with \<open>LENGTH('a) = w\<close>. Its object
  representation is the list of its \<open>sizeof(T)\<close> bytes, in the byte order of the platform.
\<close>

text \<open>
  Modelled from the spec: \<open>types::memory_t\<close> is declared in
  \<^verbatim>\<open>ecsl/type_traits/SimpleTypes.hpp\<close>, which is not among the sources. It is taken to be
  a byte, as a packed representation that gives up alignment for size needs it to be, so that
  \<open>sizeof(m_data)\<close> is \<open>sizeof(T)\<close>.
\<close>

type_synonym memory_t = "8 word"








record storage =
  m_data :: "memory_t list"








section \<open>The deferred call: \<open>any_function\<close> and its \<open>future\<close>\<close>

text \<open>
  The embedding follows the revision of \<^verbatim>\<open>AnyFunction.hpp\<close> that has \<open>function_result\<close>,
  \<open>reference_storage\<close> and the action \<open>has_all_arguments\<close>. Calls are modelled one thread
  at a time: a lock that is held never becomes free by itself, and what the other threads do
  while this one is blocked in a condition variable is an explicit parameter.
\<close>

subsection \<open>Types and type identities\<close>

text \<open>
  The part of C++ types that the traits of the source look at: an unqualified object type
  (or \<open>void\<close>), its cv-qualifiers and whether it is a reference. For a reference the
  qualifiers are those of the referred type. \<open>std::is_void\<close>, \<open>std::is_lvalue_reference\<close>
  and \<open>std::decay\<close> are the standard traits on this fragment (no arrays, no function types).
\<close>

datatype object_type = void | object nat

datatype reference = no_reference | lvalue_reference | rvalue_reference

datatype cpp_type =
  cpp_type (unqualified: object_type) (is_const: bool) (is_volatile: bool) (reference_kind: reference)

definition is_void :: "cpp_type \<Rightarrow> bool" where
  "is_void T = (unqualified T = void \<and> reference_kind T = no_reference)"

definition is_lvalue_reference :: "cpp_type \<Rightarrow> bool" where
  "is_lvalue_reference T = (reference_kind T = lvalue_reference)"

definition decay :: "cpp_type \<Rightarrow> cpp_type" where
  "decay T = cpp_type (unqualified T) False False no_reference"

text \<open>
  The types whose identity the manager compares: what a slot stores (\<open>as_void\<close>,
  \<open>reference_storage<T>\<close>, or a decayed type) and the tuple of optional argument slots.
  \<open>type_id<T...>()\<close> is the address of a function template instance, one per type list, so
  two identities are equal exactly when the types are; \<open>null_id\<close> is no type's identity.
\<close>

datatype stored_type =
  as_void | reference_storage cpp_type | plain cpp_type | optional_tuple "stored_type list"

type_synonym type_id_t = "stored_type option"

abbreviation null_id :: type_id_t where
  "null_id \<equiv> None"

definition type_id :: "stored_type \<Rightarrow> type_id_t" where
  "type_id T = Some T"

text \<open>
  \<^verbatim>\<open>function_argument<T> = conditional<is_lvalue_reference<T>, reference_storage<T>, decay<T>::type>\<close>
  and \<^verbatim>\<open>function_result<T> = conditional<is_void<T>, as_void, conditional<is_lvalue_reference<T>,
  reference_storage<T>, decay<T>::type>>\<close>.
\<close>

definition function_argument :: "cpp_type \<Rightarrow> stored_type" where
  "function_argument T =
     (if is_lvalue_reference T then reference_storage T else plain (decay T))"

definition function_result :: "cpp_type \<Rightarrow> stored_type" where
  "function_result T =
     (if is_void T then as_void
      else if is_lvalue_reference T then reference_storage T
      else plain (decay T))"

subsection \<open>Exceptions and outcomes\<close>

text \<open>
  What a call of the source can do besides returning: throw, call \<open>std::terminate\<close>
  (a \<open>throw;\<close> inside a \<open>noexcept\<close> function), never return (a lock that stays held), or
  have undefined behaviour (a null or dangling context, unlocking a mutex that is not locked).
  A returned value and a thrown exception come with the state they leave.
\<close>

datatype exception = missing_argument | bad_type_cast | bad_optional_access | bad_alloc | thrown nat

datatype ('a, 's) outcome =
  returns 'a 's | throws exception 's | terminate | blocks | undefined_behaviour

fun bind :: "('a, 's) outcome \<Rightarrow> ('a \<Rightarrow> 's \<Rightarrow> ('b, 's) outcome) \<Rightarrow> ('b, 's) outcome" where
  "bind (returns x s) k = k x s"
| "bind (throws e s) k = throws e s"
| "bind terminate k = terminate"
| "bind blocks k = blocks"
| "bind undefined_behaviour k = undefined_behaviour"

subsection \<open>The context\<close>

text \<open>
  \<open>struct waitable { std::mutex m_mu; std::condition_variable m_cv; }\<close>: the mutex is
  locked or not; of the condition variable the model keeps the number of \<open>notify_all\<close> calls.
\<close>

record waitable =
  m_mu :: bool
  m_cv :: nat

text \<open>
  \<open>ctx_storage<Callable, Result, Args...>\<close>: four optional slots. Values of the argument and
  result types are of one type \<open>'v\<close>, callables of type \<open>'f\<close>; the result of a function
  returning \<open>void\<close> is stored as \<open>as_void{}\<close>.
\<close>

datatype 'v result_object = as_void_object | result_object 'v

record ('f, 'v) ctx_storage =
  m_exception :: "exception option"
  m_callable :: "'f option"
  m_result :: "'v result_object option"
  m_arguments :: "'v option list"

text \<open>
  The four contexts \<open>unsafe_ctx\<close>, \<open>shared_ctx\<close>, \<open>spinlock_ctx\<close> and \<open>waitable_ctx\<close>
  derive from \<open>ref_counted\<close> (the counter \<open>m_counter\<close>, a \<open>std::size_t\<close> or a
  \<open>std::atomic_size_t\<close>) and from \<open>ctx_storage\<close>; \<open>spinlock_ctx\<close> adds the flag
  \<open>m_spinlock\<close> and \<open>waitable_ctx\<close> the member \<open>m_waitable\<close>. One record holds the
  fields of all four; which context it is, is a template argument of the manager function.
\<close>

record ('f, 'v) af_context = "('f, 'v) ctx_storage" +
  m_counter :: "64 word"
  m_spinlock :: bool
  m_waitable :: waitable

datatype context_type = unsafe_ctx | shared_ctx | spinlock_ctx | waitable_ctx

datatype tag = unsafe_tag | shared_tag | spinlock_tag | waitable_tag

text \<open>\<open>context_trait\<close>: the four overloads of \<open>context_trait_impl\<close>, one per tag.\<close>

fun context_trait :: "tag \<Rightarrow> context_type" where
  "context_trait unsafe_tag = unsafe_ctx"
| "context_trait shared_tag = shared_ctx"
| "context_trait spinlock_tag = spinlock_ctx"
| "context_trait waitable_tag = waitable_ctx"

text \<open>
  An instance \<open>core_manager<Context, Callable, Result, Args...>\<close> is given by its template
  arguments; of \<open>Callable\<close> the model keeps what invoking it does: from the callable and
  the argument values to a result or a thrown exception, the callable after the call and the
  argument values after the call.
\<close>

record ('f, 'v) manager_function =
  Context :: context_type
  invoke :: "'f \<Rightarrow> 'v list \<Rightarrow> (exception + 'v) \<times> 'f \<times> 'v list"
  Result :: cpp_type
  Args :: "cpp_type list"

subsection \<open>Reference counting\<close>

text \<open>
  \<open>ref_counted::acquire\<close> is \<^verbatim>\<open>++m_counter\<close>; \<open>ref_counted::release\<close> is
  \<^verbatim>\<open>if (!(--m_counter)) { destroy(al_, ptr_); deallocate(al_, ptr_, 1); }\<close>. The counter
  wraps around as a 64-bit \<open>std::size_t\<close> does. A released context that reached zero is gone
  (\<open>None\<close>).
\<close>

definition acquire :: "('f, 'v) af_context \<Rightarrow> ('f, 'v) af_context" where
  "acquire c = c\<lparr>m_counter := m_counter c + 1\<rparr>"

definition release :: "('f, 'v) af_context \<Rightarrow> ('f, 'v) af_context option" where
  "release c =
     (let c' = c\<lparr>m_counter := m_counter c - 1\<rparr>
      in if m_counter c' = 0 then None else Some c')"

subsection \<open>The four contexts\<close>

text \<open>
  \<open>lock\<close>, \<open>try_lock\<close> and \<open>unlock\<close> of the four contexts. \<open>unsafe_ctx\<close> and
  \<open>shared_ctx\<close> do nothing; \<open>spinlock_ctx\<close> spins on
  \<^verbatim>\<open>m_spinlock.test_and_set(std::memory_order_acquire)\<close> and clears the flag;
  \<open>waitable_ctx\<close> uses \<open>m_waitable.m_mu\<close>. \<open>lock\<close> gives \<open>None\<close> when it never returns,
  \<open>unlock\<close> gives \<open>None\<close> for unlocking a \<open>std::mutex\<close> that is not locked.
\<close>

fun lock :: "context_type \<Rightarrow> ('f, 'v) af_context \<Rightarrow> ('f, 'v) af_context option" where
  "lock unsafe_ctx c = Some c"
| "lock shared_ctx c = Some c"
| "lock spinlock_ctx c = (if m_spinlock c then None else Some (c\<lparr>m_spinlock := True\<rparr>))"
| "lock waitable_ctx c =
     (if m_mu (m_waitable c) then None
      else Some (c\<lparr>m_waitable := (m_waitable c)\<lparr>m_mu := True\<rparr>\<rparr>))"

fun try_lock :: "context_type \<Rightarrow> ('f, 'v) af_context \<Rightarrow> bool \<times> ('f, 'v) af_context" where
  "try_lock unsafe_ctx c = (True, c)"
| "try_lock shared_ctx c = (True, c)"
| "try_lock spinlock_ctx c = (\<not> m_spinlock c, c\<lparr>m_spinlock := True\<rparr>)"
| "try_lock waitable_ctx c =
     (if m_mu (m_waitable c) then (False, c)
      else (True, c\<lparr>m_waitable := (m_waitable c)\<lparr>m_mu := True\<rparr>\<rparr>))"

fun unlock :: "context_type \<Rightarrow> ('f, 'v) af_context \<Rightarrow> ('f, 'v) af_context option" where
  "unlock unsafe_ctx c = Some c"
| "unlock shared_ctx c = Some c"
| "unlock spinlock_ctx c = Some (c\<lparr>m_spinlock := False\<rparr>)"
| "unlock waitable_ctx c =
     (if m_mu (m_waitable c) then Some (c\<lparr>m_waitable := (m_waitable c)\<lparr>m_mu := False\<rparr>\<rparr>)
      else None)"

text \<open>
  \<open>waitable_source<Context>\<close>: \<open>waitable_ctx\<close> waits on its own \<open>m_waitable\<close> and needs
  no further lock; \<open>unsafe_ctx\<close> has a function-local static waitable that it neither locks
  nor notifies; the primary template (\<open>shared_ctx\<close>, \<open>spinlock_ctx\<close>) locks and notifies
  its function-local static \<open>g_waitable\<close>. The model keeps one static waitable in the world.
\<close>

datatype waitable_id = context_waitable | static_waitable

fun get_waitable :: "context_type \<Rightarrow> waitable_id" where
  "get_waitable waitable_ctx = context_waitable"
| "get_waitable unsafe_ctx = static_waitable"
| "get_waitable shared_ctx = static_waitable"
| "get_waitable spinlock_ctx = static_waitable"

fun lock_waitable :: "context_type \<Rightarrow> waitable \<Rightarrow> waitable option" where
  "lock_waitable unsafe_ctx g = Some g"
| "lock_waitable waitable_ctx g = Some g"
| "lock_waitable shared_ctx g = (if m_mu g then None else Some (g\<lparr>m_mu := True\<rparr>))"
| "lock_waitable spinlock_ctx g = (if m_mu g then None else Some (g\<lparr>m_mu := True\<rparr>))"

fun unlock_waitable :: "context_type \<Rightarrow> waitable \<Rightarrow> waitable option" where
  "unlock_waitable unsafe_ctx g = Some g"
| "unlock_waitable waitable_ctx g = Some g"
| "unlock_waitable shared_ctx g = (if m_mu g then Some (g\<lparr>m_mu := False\<rparr>) else None)"
| "unlock_waitable spinlock_ctx g = (if m_mu g then Some (g\<lparr>m_mu := False\<rparr>) else None)"

fun notify ::
  "context_type \<Rightarrow> ('f, 'v) af_context \<times> waitable \<Rightarrow> ('f, 'v) af_context \<times> waitable" where
  "notify unsafe_ctx (c, g) = (c, g)"
| "notify waitable_ctx (c, g) = (c\<lparr>m_waitable := (m_waitable c)\<lparr>m_cv := m_cv (m_waitable c) + 1\<rparr>\<rparr>, g)"
| "notify shared_ctx (c, g) = (c, g\<lparr>m_cv := m_cv g + 1\<rparr>)"
| "notify spinlock_ctx (c, g) = (c, g\<lparr>m_cv := m_cv g + 1\<rparr>)"

subsection \<open>The manager function\<close>

text \<open>
  The actions of \<open>af_ctx_manager::action_type\<close>, in the order of the source, and the
  pointers the manager returns: \<open>nullptr\<close>, the context itself, or the address of a member.
\<close>

datatype action_type =
  up_ref_counter | down_ref_counter | lock_call | try_lock_call | unlock_call
  | get_argument_storage | call | has_result | has_exception | has_argument
  | check_result_type | check_argument_type | get_result | get_argument | get_exception
  | get_waitable_action | get_argument_count | has_all_arguments

datatype pointer =
  nullptr | ctx_pointer | arguments_pointer | result_pointer | exception_pointer
  | argument_pointer nat | waitable_pointer waitable_id

text \<open>
  The memory a manager function works on: the contexts by address, and the static waitable.
\<close>

record ('f, 'v) world =
  heap :: "nat \<Rightarrow> ('f, 'v) af_context option"
  g_waitable :: waitable

text \<open>
  \<open>has_values\<close> folds \<^verbatim>\<open>result_ = result_ && static_cast<bool>(std::get<I>(t))\<close> over the
  slots. The functions of \<open>ith_element\<close> walk the index sequence \<open>0, ..., sizeof...(Types) - 1\<close>
  and give \<open>nullptr\<close> or \<open>false\<close> for an index that is not in it.
\<close>

definition has_values :: "'v option list \<Rightarrow> bool" where
  "has_values t = foldl (\<lambda>r x. r \<and> x \<noteq> None) True t"

fun get_impl :: "nat \<Rightarrow> nat list \<Rightarrow> pointer" where
  "get_impl i [] = nullptr"
| "get_impl i (C # I) = (if i = C then argument_pointer C else get_impl i I)"

fun is_same_impl :: "stored_type list \<Rightarrow> nat \<Rightarrow> type_id_t \<Rightarrow> nat list \<Rightarrow> bool" where
  "is_same_impl T i tid [] = False"
| "is_same_impl T i tid (C # I) = (if i = C then type_id (T ! C) = tid else is_same_impl T i tid I)"

fun has_value_impl :: "nat \<Rightarrow> 'v option list \<Rightarrow> nat list \<Rightarrow> bool" where
  "has_value_impl i t [] = False"
| "has_value_impl i t (C # I) = (if i = C then t ! C \<noteq> None else has_value_impl i t I)"

text \<open>
  \<open>ctx_storage::store_exception\<close>: \<^verbatim>\<open>if (m_exception.has_value()) throw;\<close> in a
  \<open>noexcept\<close> function calls \<open>std::terminate\<close> (\<open>None\<close>); otherwise the exception is
  stored.
\<close>

definition store_exception :: "exception \<Rightarrow> ('f, 'v) af_context \<Rightarrow> ('f, 'v) af_context option" where
  "store_exception e c =
     (if m_exception c \<noteq> None then None else Some (c\<lparr>m_exception := Some e\<rparr>))"

text \<open>
  The callable gets the stored argument objects themselves (\<open>*optional_forward<Args>(...)\<close>)
  and may change them; the slots stay populated.
\<close>

fun write_back :: "'v option list \<Rightarrow> 'v list \<Rightarrow> 'v option list" where
  "write_back [] ys = []"
| "write_back (x # xs) [] = x # xs"
| "write_back (x # xs) (y # ys) = Some y # write_back xs ys"

text \<open>
  The \<open>call\<close> case of \<open>core_manager\<close>. The local \<open>notifier\<close> locks the waitable in its
  constructor and unlocks and notifies in its destructor, which runs on every return after
  the missing-argument check.
  \<^verbatim>\<open>
  if (!has_values(context.m_arguments)) {
      context.template store_exception<missing_argument>(); return nullptr; }
  struct notifier {...} notifier_{context};
  if (context.m_result.has_value() || context.m_exception.has_value()) { return ctx; }
  try { context.m_result = apply(*context.m_callable, ...); }
  catch (...) { context.store_exception(); return nullptr; }
  \<close>
\<close>

definition notifier_dtor ::
  "context_type \<Rightarrow> pointer \<Rightarrow> ('f, 'v) af_context \<Rightarrow> waitable
     \<Rightarrow> (pointer, ('f, 'v) af_context \<times> waitable) outcome" where
  "notifier_dtor C p c g =
     (case unlock_waitable C g of
        None \<Rightarrow> undefined_behaviour
      | Some g' \<Rightarrow> returns p (notify C (c, g')))"

definition call_case ::
  "('f, 'v) manager_function \<Rightarrow> ('f, 'v) af_context \<Rightarrow> waitable
     \<Rightarrow> (pointer, ('f, 'v) af_context \<times> waitable) outcome" where
  "call_case M c g =
     (if \<not> has_values (m_arguments c) then
        (case store_exception missing_argument c of
           None \<Rightarrow> terminate
         | Some c' \<Rightarrow> returns nullptr (c', g))
      else
        (case lock_waitable (Context M) g of
           None \<Rightarrow> blocks
         | Some g1 \<Rightarrow>
             if m_result c \<noteq> None \<or> m_exception c \<noteq> None then
               notifier_dtor (Context M) ctx_pointer c g1
             else
               (case m_callable c of
                  None \<Rightarrow> undefined_behaviour
                | Some f \<Rightarrow>
                    (case invoke M f (map the (m_arguments c)) of
                       (r, f', xs) \<Rightarrow>
                         (let c1 = c\<lparr>m_callable := Some f',
                                      m_arguments := write_back (m_arguments c) xs\<rparr>
                          in case r of
                               Inr v \<Rightarrow>
                                 notifier_dtor (Context M) ctx_pointer
                                   (c1\<lparr>m_result :=
                                         Some (if is_void (Result M) then as_void_object
                                               else result_object v)\<rparr>) g1
                             | Inl e \<Rightarrow>
                                 (case store_exception e c1 of
                                    None \<Rightarrow> terminate
                                  | Some c2 \<Rightarrow> notifier_dtor (Context M) nullptr c2 g1))))))"

text \<open>
  \<open>core_manager\<close>: \<^verbatim>\<open>auto& context = *reinterpret_cast<Context*>(ctx);\<close> and a switch over
  the action; every case but the ones that return earlier ends in \<open>return ctx\<close>. The
  \<open>std::size_t\<close> that \<open>arg\<close> points to is passed in and out. \<open>into_world\<close> puts what
  the \<open>call\<close> case did to the context and to the static waitable back into the world.
\<close>

definition put :: "nat \<Rightarrow> ('f, 'v) af_context \<Rightarrow> ('f, 'v) world \<Rightarrow> ('f, 'v) world" where
  "put a c w = w\<lparr>heap := (heap w)(a \<mapsto> c)\<rparr>"

fun into_world ::
  "nat \<Rightarrow> ('f, 'v) world \<Rightarrow> nat option \<Rightarrow> (pointer, ('f, 'v) af_context \<times> waitable) outcome
     \<Rightarrow> (pointer \<times> nat option, ('f, 'v) world) outcome" where
  "into_world a w arg (returns p s) = returns (p, arg) ((put a (fst s) w)\<lparr>g_waitable := snd s\<rparr>)"
| "into_world a w arg (throws e s) = throws e ((put a (fst s) w)\<lparr>g_waitable := snd s\<rparr>)"
| "into_world a w arg terminate = terminate"
| "into_world a w arg blocks = blocks"
| "into_world a w arg undefined_behaviour = undefined_behaviour"

definition core_manager ::
  "('f, 'v) manager_function \<Rightarrow> action_type \<Rightarrow> nat option \<Rightarrow> type_id_t \<Rightarrow> nat option
     \<Rightarrow> ('f, 'v) world \<Rightarrow> (pointer \<times> nat option, ('f, 'v) world) outcome" where
  "core_manager M action ctx tid arg w =
     (case ctx of
        None \<Rightarrow> undefined_behaviour
      | Some a \<Rightarrow>
     (case heap w a of
        None \<Rightarrow> undefined_behaviour
      | Some c \<Rightarrow>
     (case action of
        up_ref_counter \<Rightarrow> returns (ctx_pointer, arg) (put a (acquire c) w)
      | down_ref_counter \<Rightarrow> returns (ctx_pointer, arg) (w\<lparr>heap := (heap w)(a := release c)\<rparr>)
      | lock_call \<Rightarrow>
          (case lock (Context M) c of
             None \<Rightarrow> blocks
           | Some c' \<Rightarrow> returns (ctx_pointer, arg) (put a c' w))
      | try_lock_call \<Rightarrow>
          (case try_lock (Context M) c of
             (locked, c') \<Rightarrow> returns (if \<not> locked then nullptr else ctx_pointer, arg) (put a c' w))
      | unlock_call \<Rightarrow>
          (case unlock (Context M) c of
             None \<Rightarrow> undefined_behaviour
           | Some c' \<Rightarrow> returns (ctx_pointer, arg) (put a c' w))
      | get_argument_storage \<Rightarrow>
          returns (if type_id (optional_tuple (map function_argument (Args M))) = tid
                   then arguments_pointer else nullptr, arg) w
      | call \<Rightarrow> into_world a w arg (call_case M c (g_waitable w))
      | has_result \<Rightarrow> returns (if m_result c = None then nullptr else ctx_pointer, arg) w
      | has_exception \<Rightarrow> returns (if m_exception c = None then nullptr else ctx_pointer, arg) w
      | has_argument \<Rightarrow>
          (case arg of
             None \<Rightarrow> undefined_behaviour
           | Some i \<Rightarrow>
               returns (if \<not> has_value_impl i (m_arguments c) [0..<length (m_arguments c)]
                        then nullptr else ctx_pointer, arg) w)
      | check_result_type \<Rightarrow>
          returns (if type_id (function_result (Result M)) \<noteq> tid then nullptr else ctx_pointer, arg) w
      | check_argument_type \<Rightarrow>
          (case arg of
             None \<Rightarrow> undefined_behaviour
           | Some i \<Rightarrow>
               returns (if \<not> is_same_impl (map function_argument (Args M)) i tid [0..<length (Args M)]
                        then nullptr else ctx_pointer, arg) w)
      | get_result \<Rightarrow> returns (result_pointer, arg) w
      | get_argument \<Rightarrow>
          (case arg of
             None \<Rightarrow> undefined_behaviour
           | Some i \<Rightarrow> returns (get_impl i [0..<length (m_arguments c)], arg) w)
      | get_exception \<Rightarrow> returns (exception_pointer, arg) w
      | get_waitable_action \<Rightarrow> returns (waitable_pointer (get_waitable (Context M)), arg) w
      | get_argument_count \<Rightarrow>
          (case arg of
             None \<Rightarrow> undefined_behaviour
           | Some n \<Rightarrow> returns (ctx_pointer, Some (length (Args M))) w)
      | has_all_arguments \<Rightarrow>
          returns (if \<not> has_values (m_arguments c) then nullptr else ctx_pointer, arg) w)))"

subsection \<open>Handles\<close>

text \<open>
  \<open>af_ctx_manager\<close>, the base class of \<open>any_function\<close> and of \<open>future<T>\<close>, which add no
  member: \<^verbatim>\<open>void* m_context; manager_function* m_manager;\<close>.
\<close>

record ('f, 'v) af_ctx_manager =
  m_context :: "nat option"
  m_manager :: "('f, 'v) manager_function option"

definition call_with ::
  "('f, 'v) af_ctx_manager \<Rightarrow> action_type \<Rightarrow> type_id_t \<Rightarrow> nat option
     \<Rightarrow> ('f, 'v) world \<Rightarrow> (pointer \<times> nat option, ('f, 'v) world) outcome" where
  "call_with this action tid arg w =
     (case m_manager this of
        None \<Rightarrow> undefined_behaviour
      | Some M \<Rightarrow> core_manager M action (m_context this) tid arg w)"

definition operator_bool :: "('f, 'v) af_ctx_manager \<Rightarrow> bool" where
  "operator_bool this = (m_context this \<noteq> None \<and> m_manager this \<noteq> None)"

definition operator_eq :: "('f, 'v) af_ctx_manager \<Rightarrow> ('f, 'v) af_ctx_manager \<Rightarrow> bool" where
  "operator_eq lhs rhs = (m_context lhs = m_context rhs \<and> m_manager lhs = m_manager rhs)"

text \<open>
  Constructors, assignments and the destructor of \<open>af_ctx_manager\<close>. The move operations
  are \<open>swap\<close>s; \<open>same\<close> is the test \<^verbatim>\<open>this == &other\<close>. Copy assignment is
  \<^verbatim>\<open>
  if (this == &other) return *this;
  if (static_cast<bool>(*this)) call_with(action_type::down_ref_counter);
  *this = af_ctx_manager(other);
  return *this;
  \<close>
  where the temporary is move-assigned from and then destroyed.
\<close>

definition af_ctx_manager_default :: "('f, 'v) af_ctx_manager" where
  "af_ctx_manager_default = \<lparr>m_context = None, m_manager = None\<rparr>"

definition af_ctx_manager_copy ::
  "('f, 'v) af_ctx_manager \<Rightarrow> ('f, 'v) world
     \<Rightarrow> (('f, 'v) af_ctx_manager, ('f, 'v) world) outcome" where
  "af_ctx_manager_copy other w =
     (let this = \<lparr>m_context = m_context other, m_manager = m_manager other\<rparr>
      in if operator_bool other
         then bind (call_with this up_ref_counter null_id None w) (\<lambda>r w'. returns this w')
         else returns this w)"

definition af_ctx_manager_swap ::
  "('f, 'v) af_ctx_manager \<times> ('f, 'v) af_ctx_manager
     \<Rightarrow> ('f, 'v) af_ctx_manager \<times> ('f, 'v) af_ctx_manager" where
  "af_ctx_manager_swap p =
     (case p of (this, other) \<Rightarrow>
        (this\<lparr>m_context := m_context other, m_manager := m_manager other\<rparr>,
         other\<lparr>m_context := m_context this, m_manager := m_manager this\<rparr>))"

definition af_ctx_manager_move ::
  "('f, 'v) af_ctx_manager \<Rightarrow> ('f, 'v) af_ctx_manager \<times> ('f, 'v) af_ctx_manager" where
  "af_ctx_manager_move other = af_ctx_manager_swap (af_ctx_manager_default, other)"

definition af_ctx_manager_dtor ::
  "('f, 'v) af_ctx_manager \<Rightarrow> ('f, 'v) world \<Rightarrow> (unit, ('f, 'v) world) outcome" where
  "af_ctx_manager_dtor this w =
     (if operator_bool this
      then bind (call_with this down_ref_counter null_id None w) (\<lambda>r w'. returns () w')
      else returns () w)"

definition af_ctx_manager_assign_move ::
  "bool \<Rightarrow> ('f, 'v) af_ctx_manager \<Rightarrow> ('f, 'v) af_ctx_manager
     \<Rightarrow> ('f, 'v) af_ctx_manager \<times> ('f, 'v) af_ctx_manager" where
  "af_ctx_manager_assign_move same this other =
     (if same then (this, other) else af_ctx_manager_swap (this, other))"

definition af_ctx_manager_assign_copy ::
  "bool \<Rightarrow> ('f, 'v) af_ctx_manager \<Rightarrow> ('f, 'v) af_ctx_manager \<Rightarrow> ('f, 'v) world
     \<Rightarrow> (('f, 'v) af_ctx_manager, ('f, 'v) world) outcome" where
  "af_ctx_manager_assign_copy same this other w =
     (if same then returns this w
      else
        bind (if operator_bool this
              then bind (call_with this down_ref_counter null_id None w) (\<lambda>r w'. returns () w')
              else returns () w)
          (\<lambda>u w1.
             bind (af_ctx_manager_copy other w1)
               (\<lambda>tmp w2.
                  case af_ctx_manager_assign_move False this tmp of
                    (this', tmp') \<Rightarrow>
                      bind (af_ctx_manager_dtor tmp' w2) (\<lambda>u w3. returns this' w3))))"

text \<open>
  \<open>call_guard\<close> locks in its constructor and, when it locked, unlocks in its destructor.
\<close>

definition call_guard ::
  "('f, 'v) af_ctx_manager \<Rightarrow> ('f, 'v) world \<Rightarrow> (bool, ('f, 'v) world) outcome" where
  "call_guard this w =
     bind (call_with this lock_call null_id None w) (\<lambda>r w'. returns (fst r \<noteq> nullptr) w')"

definition call_guard_dtor ::
  "bool \<Rightarrow> ('f, 'v) af_ctx_manager \<Rightarrow> ('f, 'v) world \<Rightarrow> (unit, ('f, 'v) world) outcome" where
  "call_guard_dtor locked this w =
     (if locked
      then bind (call_with this unlock_call null_id None w) (\<lambda>r w'. returns () w')
      else returns () w)"

subsection \<open>any_function\<close>

datatype call_result = succeeded | exception | arguments_not_accepted

datatype future_status = ready | timeout | deferred

text \<open>
  \<open>alloc_context\<close> allocates and constructs a context: counter 1, every slot empty, flag
  clear. The allocator is a parameter: the address it gives, or \<open>None\<close> when it throws.
  The constructor of \<open>any_function\<close> then stores the callable and binds the manager
  function instance of the tag's context type.
\<close>

definition new_context :: "nat \<Rightarrow> ('f, 'v) af_context" where
  "new_context n =
     \<lparr>m_exception = None, m_callable = None, m_result = None, m_arguments = replicate n None,
      m_counter = 1, m_spinlock = False, m_waitable = \<lparr>m_mu = False, m_cv = 0\<rparr>\<rparr>"

definition alloc_context ::
  "(('f, 'v) world \<Rightarrow> nat option) \<Rightarrow> nat \<Rightarrow> ('f, 'v) world \<Rightarrow> (nat, ('f, 'v) world) outcome" where
  "alloc_context al n w =
     (case al w of
        None \<Rightarrow> throws bad_alloc w
      | Some st \<Rightarrow> returns st (put st (new_context n) w))"

definition any_function_ctor ::
  "tag \<Rightarrow> 'f \<Rightarrow> ('f \<Rightarrow> 'v list \<Rightarrow> (exception + 'v) \<times> 'f \<times> 'v list) \<Rightarrow> cpp_type \<Rightarrow> cpp_type list
     \<Rightarrow> (('f, 'v) world \<Rightarrow> nat option) \<Rightarrow> ('f, 'v) world
     \<Rightarrow> (('f, 'v) af_ctx_manager, ('f, 'v) world) outcome" where
  "any_function_ctor tg f call_op R As al w =
     bind (alloc_context al (length As) w)
       (\<lambda>storage w1.
          case heap w1 storage of
            None \<Rightarrow> undefined_behaviour
          | Some c \<Rightarrow>
              returns
                \<lparr>m_context = Some storage,
                 m_manager = Some \<lparr>Context = context_trait tg, invoke = call_op, Result = R, Args = As\<rparr>\<rparr>
                (put storage (c\<lparr>m_callable := Some f\<rparr>) w1))"

text \<open>
  \<^verbatim>\<open>args_ = std::make_tuple(std::forward<Args>(args)...);\<close> through the pointer that
  \<open>get_argument_storage\<close> returned.
\<close>

definition assign_arguments ::
  "('f, 'v) af_ctx_manager \<Rightarrow> 'v list \<Rightarrow> ('f, 'v) world \<Rightarrow> (unit, ('f, 'v) world) outcome" where
  "assign_arguments this xs w =
     (case m_context this of
        None \<Rightarrow> undefined_behaviour
      | Some a \<Rightarrow>
          (case heap w a of
             None \<Rightarrow> undefined_behaviour
           | Some c \<Rightarrow> returns () (put a (c\<lparr>m_arguments := map Some xs\<rparr>) w)))"

text \<open>
  The tests \<^verbatim>\<open>call_with(has_result) || call_with(has_exception)\<close> and
  \<^verbatim>\<open>call_with(has_all_arguments) && !(call_with(has_result) || call_with(has_exception))\<close>,
  evaluated left to right.
\<close>

definition has_result_or_exception ::
  "('f, 'v) af_ctx_manager \<Rightarrow> ('f, 'v) world \<Rightarrow> (bool, ('f, 'v) world) outcome" where
  "has_result_or_exception this w =
     bind (call_with this has_result null_id None w)
       (\<lambda>r w1.
          if fst r \<noteq> nullptr then returns True w1
          else bind (call_with this has_exception null_id None w1)
                 (\<lambda>r w2. returns (fst r \<noteq> nullptr) w2))"

definition prepared ::
  "('f, 'v) af_ctx_manager \<Rightarrow> ('f, 'v) world \<Rightarrow> (bool, ('f, 'v) world) outcome" where
  "prepared this w =
     bind (call_with this has_all_arguments null_id None w)
       (\<lambda>r w1.
          if fst r = nullptr then returns False w1
          else bind (has_result_or_exception this w1) (\<lambda>b w2. returns (\<not> b) w2))"

definition has_anything ::
  "('f, 'v) af_ctx_manager \<Rightarrow> ('f, 'v) world \<Rightarrow> (bool, ('f, 'v) world) outcome" where
  "has_anything this w =
     bind (call_guard this w)
       (\<lambda>locked w1.
          bind (has_result_or_exception this w1)
            (\<lambda>b w2. bind (call_guard_dtor locked this w2) (\<lambda>u w3. returns b w3)))"

definition is_result_of_type ::
  "cpp_type \<Rightarrow> ('f, 'v) af_ctx_manager \<Rightarrow> ('f, 'v) world \<Rightarrow> (bool, ('f, 'v) world) outcome" where
  "is_result_of_type T this w =
     bind (call_with this check_result_type (type_id (function_result T)) None w)
       (\<lambda>r w1. returns (fst r \<noteq> nullptr) w1)"

definition is_prepared ::
  "('f, 'v) af_ctx_manager \<Rightarrow> ('f, 'v) world \<Rightarrow> (bool, ('f, 'v) world) outcome" where
  "is_prepared this w =
     bind (call_guard this w)
       (\<lambda>locked w1.
          bind (prepared this w1)
            (\<lambda>b w2. bind (call_guard_dtor locked this w2) (\<lambda>u w3. returns b w3)))"

text \<open>
  \<open>operator()(Args&&... args)\<close>: the deduced \<open>Args\<close> come with the values. An lvalue
  argument of type \<open>T\<close> deduces \<open>T&\<close>, an rvalue deduces \<open>T\<close>.
  \<^verbatim>\<open>
  using opt_args = optional_tuple<function_argument<Args>...>;
  call_guard guard_{m_context, m_manager};
  auto* arg_storage_ = call_with(action_type::get_argument_storage, type_id<opt_args>());
  if (!arg_storage_) { return call_result::arguments_not_accepted; }
  ...
  return call_with(action_type::call) ? call_result::succeeded : call_result::exception;
  \<close>
  \<open>operator()()\<close> calls with the stored arguments.
\<close>

definition operator_call_with ::
  "('f, 'v) af_ctx_manager \<Rightarrow> (cpp_type \<times> 'v) list \<Rightarrow> ('f, 'v) world
     \<Rightarrow> (call_result, ('f, 'v) world) outcome" where
  "operator_call_with this args w =
     bind (call_guard this w)
       (\<lambda>locked w1.
          bind (call_with this get_argument_storage
                  (type_id (optional_tuple (map (\<lambda>x. function_argument (fst x)) args))) None w1)
            (\<lambda>arg_storage w2.
               if fst arg_storage = nullptr
               then bind (call_guard_dtor locked this w2) (\<lambda>u w3. returns arguments_not_accepted w3)
               else
                 bind (assign_arguments this (map snd args) w2)
                   (\<lambda>u w3.
                      bind (call_with this call null_id None w3)
                        (\<lambda>r w4.
                           bind (call_guard_dtor locked this w4)
                             (\<lambda>u w5. returns (if fst r \<noteq> nullptr then succeeded else exception) w5)))))"

definition operator_call ::
  "('f, 'v) af_ctx_manager \<Rightarrow> ('f, 'v) world \<Rightarrow> (call_result, ('f, 'v) world) outcome" where
  "operator_call this w =
     bind (call_guard this w)
       (\<lambda>locked w1.
          bind (call_with this call null_id None w1)
            (\<lambda>r w2.
               bind (call_guard_dtor locked this w2)
                 (\<lambda>u w3. returns (if fst r \<noteq> nullptr then succeeded else exception) w3)))"

subsection \<open>future\<close>

text \<open>
  \<^verbatim>\<open>explicit future(const any_function& af) : af_ctx_manager{af}
  { if (static_cast<bool>(af) && !af.is_result_of_type<T>()) { throw bad_type_cast{}; } }\<close>
  The exception leaves the constructor after the base was constructed, so the base is destroyed.
\<close>

definition future_ctor ::
  "cpp_type \<Rightarrow> ('f, 'v) af_ctx_manager \<Rightarrow> ('f, 'v) world
     \<Rightarrow> (('f, 'v) af_ctx_manager, ('f, 'v) world) outcome" where
  "future_ctor T af w =
     bind (af_ctx_manager_copy af w)
       (\<lambda>this w1.
          if operator_bool af then
            bind (is_result_of_type T af w1)
              (\<lambda>ok w2.
                 if \<not> ok
                 then bind (af_ctx_manager_dtor this w2) (\<lambda>u w3. throws bad_type_cast w3)
                 else returns this w2)
          else returns this w1)"

text \<open>
  The waits of \<open>future\<close> lock the mutex of the waitable that \<open>get_waitable\<close> returned.
  \<open>std::condition_variable::wait(lk, pred)\<close> is \<^verbatim>\<open>while (!pred()) wait(lk);\<close> and
  \<open>wait_until(lk, t, pred)\<close> is
  \<^verbatim>\<open>while (!pred()) if (wait_until(lk, t) == cv_status::timeout) return pred(); return true;\<close>.
  Each \<open>wait(lk)\<close> unlocks, blocks and locks again; an environment lists, for every such
  period, what the other threads did to the world meanwhile. For \<open>cv_wait\<close> an exhausted
  environment means that nobody ever wakes the thread; for \<open>cv_wait_until\<close> the last period
  ends with the timeout.
\<close>

definition lock_mutex ::
  "waitable_id \<Rightarrow> ('f, 'v) af_ctx_manager \<Rightarrow> ('f, 'v) world \<Rightarrow> (unit, ('f, 'v) world) outcome" where
  "lock_mutex wid this w =
     (case wid of
        static_waitable \<Rightarrow>
          (if m_mu (g_waitable w) then blocks
           else returns () (w\<lparr>g_waitable := (g_waitable w)\<lparr>m_mu := True\<rparr>\<rparr>))
      | context_waitable \<Rightarrow>
          (case m_context this of
             None \<Rightarrow> undefined_behaviour
           | Some a \<Rightarrow>
               (case heap w a of
                  None \<Rightarrow> undefined_behaviour
                | Some c \<Rightarrow>
                    if m_mu (m_waitable c) then blocks
                    else returns () (put a (c\<lparr>m_waitable := (m_waitable c)\<lparr>m_mu := True\<rparr>\<rparr>) w))))"

definition unlock_mutex ::
  "waitable_id \<Rightarrow> ('f, 'v) af_ctx_manager \<Rightarrow> ('f, 'v) world \<Rightarrow> (unit, ('f, 'v) world) outcome" where
  "unlock_mutex wid this w =
     (case wid of
        static_waitable \<Rightarrow>
          (if m_mu (g_waitable w)
           then returns () (w\<lparr>g_waitable := (g_waitable w)\<lparr>m_mu := False\<rparr>\<rparr>)
           else undefined_behaviour)
      | context_waitable \<Rightarrow>
          (case m_context this of
             None \<Rightarrow> undefined_behaviour
           | Some a \<Rightarrow>
               (case heap w a of
                  None \<Rightarrow> undefined_behaviour
                | Some c \<Rightarrow>
                    if m_mu (m_waitable c)
                    then returns () (put a (c\<lparr>m_waitable := (m_waitable c)\<lparr>m_mu := False\<rparr>\<rparr>) w)
                    else undefined_behaviour)))"

type_synonym ('f, 'v) environment = "(('f, 'v) world \<Rightarrow> ('f, 'v) world) list"

fun cv_wait ::
  "('f, 'v) af_ctx_manager \<Rightarrow> waitable_id \<Rightarrow> ('f, 'v) environment \<Rightarrow> ('f, 'v) world
     \<Rightarrow> (unit, ('f, 'v) world) outcome" where
  "cv_wait this wid [] w =
     bind (has_result_or_exception this w) (\<lambda>b w1. if b then returns () w1 else blocks)"
| "cv_wait this wid (e # es) w =
     bind (has_result_or_exception this w)
       (\<lambda>b w1.
          if b then returns () w1
          else bind (unlock_mutex wid this w1)
                 (\<lambda>u w2. bind (lock_mutex wid this (e w2)) (\<lambda>u w3. cv_wait this wid es w3)))"


text \<open>
  \<open>future::wait\<close> runs the call itself when it is prepared:
  \<^verbatim>\<open>
  { call_guard guard_{m_context, m_manager};
    if (call_with(has_all_arguments) && !(call_with(has_result) || call_with(has_exception)))
    { call_with(action_type::call); return; } }
  waitable& w_ = *reinterpret_cast<waitable*>(call_with(action_type::get_waitable));
  std::unique_lock<std::mutex> lk_(w_.m_mu);
  w_.m_cv.wait(lk_, [&]{ return call_with(has_result) || call_with(has_exception); });
  \<close>
  \<open>wait_for\<close> and \<open>wait_until\<close> only wait; \<open>get\<close> waits, then rethrows the stored
  exception or reads the result (\<open>std::optional::value\<close>).
\<close>

definition future_wait ::
  "('f, 'v) af_ctx_manager \<Rightarrow> ('f, 'v) environment \<Rightarrow> ('f, 'v) world
     \<Rightarrow> (unit, ('f, 'v) world) outcome" where
  "future_wait this env w =
     bind (call_guard this w)
       (\<lambda>locked w1.
          bind (prepared this w1)
            (\<lambda>b w2.
               if b then
                 bind (call_with this call null_id None w2)
                   (\<lambda>r w3. call_guard_dtor locked this w3)
               else
                 bind (call_guard_dtor locked this w2)
                   (\<lambda>u w3.
                      bind (call_with this get_waitable_action null_id None w3)
                        (\<lambda>r w4.
                           case fst r of
                             waitable_pointer wid \<Rightarrow>
                               bind (lock_mutex wid this w4)
                                 (\<lambda>u w5.
                                    bind (cv_wait this wid env w5)
                                      (\<lambda>u w6. unlock_mutex wid this w6))
                           | _ \<Rightarrow> undefined_behaviour))))"



definition future_get ::
  "cpp_type \<Rightarrow> ('f, 'v) af_ctx_manager \<Rightarrow> ('f, 'v) environment \<Rightarrow> ('f, 'v) world
     \<Rightarrow> ('v result_object, ('f, 'v) world) outcome" where
  "future_get T this env w =
     bind (future_wait this env w)
       (\<lambda>u w1.
          bind (call_guard this w1)
            (\<lambda>locked w2.
               bind (call_with this has_exception null_id None w2)
                 (\<lambda>r w3.
                    if fst r \<noteq> nullptr then
                      bind (call_with this get_exception null_id None w3)
                        (\<lambda>r w4.
                           case m_context this of
                             None \<Rightarrow> undefined_behaviour
                           | Some a \<Rightarrow>
                               (case heap w4 a of
                                  None \<Rightarrow> undefined_behaviour
                                | Some c \<Rightarrow>
                                    (case m_exception c of
                                       None \<Rightarrow> undefined_behaviour
                                     | Some e \<Rightarrow>
                                         bind (call_guard_dtor locked this w4)
                                           (\<lambda>u w5. throws e w5))))
                    else
                      bind (call_with this get_result null_id None w3)
                        (\<lambda>r w4.
                           if is_void T then
                             bind (call_guard_dtor locked this w4)
                               (\<lambda>u w5. returns as_void_object w5)
                           else
                             (case m_context this of
                                None \<Rightarrow> undefined_behaviour
                              | Some a \<Rightarrow>
                                  (case heap w4 a of
                                     None \<Rightarrow> undefined_behaviour
                                   | Some c \<Rightarrow>
                                       (case m_result c of
                                          None \<Rightarrow>
                                            bind (call_guard_dtor locked this w4)
                                              (\<lambda>u w5. throws bad_optional_access w5)
                                        | Some x \<Rightarrow>
                                            bind (call_guard_dtor locked this w4)
                                              (\<lambda>u w5. returns x w5))))))))"

definition future_valid :: "('f, 'v) af_ctx_manager \<Rightarrow> bool" where
  "future_valid this = operator_bool this"

subsection \<open>States of a context\<close>

text \<open>
  A context is completed when it holds a result or an exception, and prepared when every
  argument slot is populated and it is not completed (\<open>any_function::is_prepared\<close>). Its lock
  is free when a \<open>lock\<close> would return. \<open>run\<close> is the world after the other threads' steps.
\<close>

definition completed :: "('f, 'v) af_context \<Rightarrow> bool" where
  "completed c = (m_result c \<noteq> None \<or> m_exception c \<noteq> None)"



definition unlocked :: "context_type \<Rightarrow> ('f, 'v) af_context \<Rightarrow> bool" where
  "unlocked C c =
     (case C of
        unsafe_ctx \<Rightarrow> True
      | shared_ctx \<Rightarrow> True
      | spinlock_ctx \<Rightarrow> \<not> m_spinlock c
      | waitable_ctx \<Rightarrow> \<not> m_mu (m_waitable c))"


subsection \<open>A concrete deferred call\<close>

text \<open>
  A callable \<open>int f(int)\<close> whose state counts its invocations, and a world with one context
  at address 0, as the constructor of \<open>any_function\<close> leaves it.
\<close>

definition int_type :: cpp_type where
  "int_type = cpp_type (object 0) False False no_reference"

definition counting_invoke :: "nat \<Rightarrow> int list \<Rightarrow> (exception + int) \<times> nat \<times> int list" where
  "counting_invoke f xs = (Inr (sum_list xs), Suc f, xs)"

definition example_manager :: "tag \<Rightarrow> (nat, int) manager_function" where
  "example_manager tg =
     \<lparr>Context = context_trait tg, invoke = counting_invoke, Result = int_type, Args = [int_type]\<rparr>"

definition example_context :: "(nat, int) af_context" where
  "example_context =
     \<lparr>m_exception = None, m_callable = Some 0, m_result = None, m_arguments = [None],
      m_counter = 1, m_spinlock = False, m_waitable = \<lparr>m_mu = False, m_cv = 0\<rparr>\<rparr>"

definition example_world :: "(nat, int) af_context \<Rightarrow> (nat, int) world" where
  "example_world c = \<lparr>heap = Map.empty(0 \<mapsto> c), g_waitable = \<lparr>m_mu = False, m_cv = 0\<rparr>\<rparr>"

definition example_handle :: "tag \<Rightarrow> (nat, int) af_ctx_manager" where
  "example_handle tg = \<lparr>m_context = Some 0, m_manager = Some (example_manager tg)\<rparr>"



section \<open>Properties of compact integers\<close>








section \<open>Properties of the deferred call\<close>


lemma heap_put: "heap (put a c w) b = (if b = a then Some c else heap w b)"
  by (simp add: put_def)

lemma put_put: "put a c (put a c' w) = put a c w"
  by (simp add: put_def)

lemma g_waitable_put: "g_waitable (put a c w) = g_waitable w"
  by (simp add: put_def)

lemma call_with_live:
  assumes "m_context this = Some a" "m_manager this = Some M" "heap w a = Some c"
  shows "call_with this has_result tid arg w = returns (if m_result c = None then nullptr else ctx_pointer, arg) w"
    and "call_with this has_exception tid arg w = returns (if m_exception c = None then nullptr else ctx_pointer, arg) w"
    and "call_with this has_all_arguments tid arg w = returns (if \<not> has_values (m_arguments c) then nullptr else ctx_pointer, arg) w"
    and "call_with this get_waitable_action tid arg w = returns (waitable_pointer (get_waitable (Context M)), arg) w"
    and "call_with this get_result tid arg w = returns (result_pointer, arg) w"
    and "call_with this get_exception tid arg w = returns (exception_pointer, arg) w"
    and "call_with this check_result_type tid arg w = returns (if type_id (function_result (Result M)) \<noteq> tid then nullptr else ctx_pointer, arg) w"
    and "call_with this get_argument_storage tid arg w = returns (if type_id (optional_tuple (map function_argument (Args M))) = tid then arguments_pointer else nullptr, arg) w"
    and "call_with this up_ref_counter tid arg w = returns (ctx_pointer, arg) (put a (acquire c) w)"
    and "call_with this down_ref_counter tid arg w = returns (ctx_pointer, arg) (w\<lparr>heap := (heap w)(a := release c)\<rparr>)"
    and "call_with this lock_call tid arg w = (case lock (Context M) c of None \<Rightarrow> blocks | Some c' \<Rightarrow> returns (ctx_pointer, arg) (put a c' w))"
    and "call_with this unlock_call tid arg w = (case unlock (Context M) c of None \<Rightarrow> undefined_behaviour | Some c' \<Rightarrow> returns (ctx_pointer, arg) (put a c' w))"
    and "call_with this try_lock_call tid arg w = (case try_lock (Context M) c of (locked, c') \<Rightarrow> returns (if \<not> locked then nullptr else ctx_pointer, arg) (put a c' w))"
  using assms by (simp_all add: call_with_def core_manager_def)




lemma spinlock_clear_idem: "\<not> m_spinlock c \<Longrightarrow> c\<lparr>m_spinlock := False\<rparr> = c"
  by simp

lemma mutex_clear_idem:
  "\<not> m_mu (m_waitable c) \<Longrightarrow> c\<lparr>m_waitable := (m_waitable c)\<lparr>m_mu := False\<rparr>\<rparr> = c"
  by simp

lemma mutex_clear_idem': "\<not> m_mu g \<Longrightarrow> g\<lparr>m_mu := False\<rparr> = g"
  by simp

lemma waitable_update_idem: "m_waitable c = g \<Longrightarrow> c\<lparr>m_waitable := g\<rparr> = c"
  by auto

lemmas lock_idem = spinlock_clear_idem mutex_clear_idem mutex_clear_idem' waitable_update_idem

lemma call_with_call_live:
  assumes "m_context this = Some a" "m_manager this = Some M" "heap w a = Some c"
  shows "call_with this call tid arg w = into_world a w arg (call_case M c (g_waitable w))"
  using assms by (simp add: call_with_def core_manager_def)

lemma call_case_missing:
  "\<not> has_values (m_arguments c) \<Longrightarrow> m_exception c = None \<Longrightarrow>
     call_case M c g = returns nullptr (c\<lparr>m_exception := Some missing_argument\<rparr>, g)"
  by (simp add: call_case_def store_exception_def)

lemma put_g [simp]: "(put a c w)\<lparr>g_waitable := g_waitable w\<rparr> = put a c w"
  by (simp add: put_def)



lemma into_world_returns_iff:
  "(into_world a w arg m = returns r w') =
     (\<exists>p s. m = returns p s \<and> r = (p, arg) \<and> w' = (put a (fst s) w)\<lparr>g_waitable := snd s\<rparr>)"
  by (cases m) auto

lemma notifier_dtor_returns:
  "notifier_dtor C p c g = returns q s \<Longrightarrow>
     q = p \<and> ctx_storage.truncate (fst s) = ctx_storage.truncate c \<and> m_counter (fst s) = m_counter c"
  by (cases C) (auto simp: notifier_dtor_def ctx_storage.truncate_def split: option.splits if_splits)

lemma call_case_completed:
  assumes "completed c" and "call_case M c g = returns p s"
  shows "m_callable (fst s) = m_callable c \<and> m_result (fst s) = m_result c
       \<and> m_arguments (fst s) = m_arguments c
       \<and> (if has_values (m_arguments c)
           then p = ctx_pointer \<and> m_exception (fst s) = m_exception c
           else p = nullptr \<and> m_exception c = None \<and> m_exception (fst s) = Some missing_argument)"
proof (cases "has_values (m_arguments c)")
  case True
  with assms obtain g1 where "notifier_dtor (Context M) ctx_pointer c g1 = returns p s"
    by (auto simp: call_case_def completed_def split: option.splits)
  from notifier_dtor_returns [OF this] True show ?thesis
    by (auto simp: ctx_storage.truncate_def)
next
  case False
  with assms show ?thesis
    by (auto simp: call_case_def store_exception_def split: if_splits)
qed

lemma type_id_inject: "(type_id S = type_id T) = (S = T)"
  by (simp add: type_id_def)

lemma release_acquire: "m_counter c \<noteq> 0 \<Longrightarrow> release (acquire c) = Some c"
  by (simp add: release_def acquire_def Let_def)



lemma world_mutex_idem:
  "\<not> m_mu (g_waitable w) \<Longrightarrow> w\<lparr>g_waitable := (g_waitable w)\<lparr>m_mu := False\<rparr>\<rparr> = w"
  by simp





























lemma handle_reference_counting:
  assumes "m_context h = Some a" and "m_manager h = Some M" and "heap w a = Some c"
  shows "af_ctx_manager_copy h w
           = returns \<lparr>m_context = Some a, m_manager = Some M\<rparr> (put a (acquire c) w)"
    and "m_counter (acquire c) = m_counter c + 1"
    and "af_ctx_manager_dtor h w = returns () (w\<lparr>heap := (heap w)(a := release c)\<rparr>)"
    and "release c = (if m_counter c = 1 then None else Some (c\<lparr>m_counter := m_counter c - 1\<rparr>))"
    and "af_ctx_manager_move h
           = (\<lparr>m_context = Some a, m_manager = Some M\<rparr>, h\<lparr>m_context := None, m_manager := None\<rparr>)"
proof -
  let ?h = "\<lparr>m_context = Some a, m_manager = Some M\<rparr> :: ('a, 'b) af_ctx_manager"
  have h: "m_context ?h = Some a" "m_manager ?h = Some M"
    by simp_all
  show "af_ctx_manager_copy h w = returns ?h (put a (acquire c) w)"
    using assms(1,2)
    by (simp add: af_ctx_manager_copy_def Let_def operator_bool_def call_with_live [OF h assms(3)])
  show "m_counter (acquire c) = m_counter c + 1"
    by (simp add: acquire_def)
  show "af_ctx_manager_dtor h w = returns () (w\<lparr>heap := (heap w)(a := release c)\<rparr>)"
    using assms(1,2)
    by (simp add: af_ctx_manager_dtor_def operator_bool_def call_with_live [OF assms])
  show "release c = (if m_counter c = 1 then None else Some (c\<lparr>m_counter := m_counter c - 1\<rparr>))"
    by (simp add: release_def Let_def)
  show "af_ctx_manager_move h = (?h, h\<lparr>m_context := None, m_manager := None\<rparr>)"
    using assms(1,2)
    by (simp add: af_ctx_manager_move_def af_ctx_manager_swap_def af_ctx_manager_default_def)
qed


section \<open>Main results on the deferred call\<close>

lemmas example_defs =
  example_handle_def example_manager_def example_world_def example_context_def
  counting_invoke_def int_type_def

lemmas operation_defs =
  call_with_def core_manager_def call_case_def has_values_def notifier_dtor_def
  store_exception_def put_def call_guard_def call_guard_dtor_def

text \<open>
  The concrete call from construction to the result: the constructor makes the context of
  the example, \<open>operator()\<close> with an \<open>int\<close> rvalue runs the callable once, and \<open>get\<close> on
  the future reads the result.
\<close>

lemma example_call_and_get:
  "any_function_ctor unsafe_tag 0 counting_invoke int_type [int_type] (\<lambda>w. Some 0)
       \<lparr>heap = Map.empty, g_waitable = \<lparr>m_mu = False, m_cv = 0\<rparr>\<rparr>
     = returns (example_handle unsafe_tag) (example_world example_context)"
  "operator_call_with (example_handle unsafe_tag) [(int_type, 5)] (example_world example_context)
     = returns succeeded
         (example_world (example_context\<lparr>m_arguments := [Some 5], m_callable := Some 1,
                                          m_result := Some (result_object 5)\<rparr>))"
  "future_get int_type (example_handle unsafe_tag) []
       (example_world (example_context\<lparr>m_arguments := [Some 5], m_callable := Some 1,
                                        m_result := Some (result_object 5)\<rparr>))
     = returns (result_object 5)
         (example_world (example_context\<lparr>m_arguments := [Some 5], m_callable := Some 1,
                                          m_result := Some (result_object 5)\<rparr>))"
    apply (simp add: any_function_ctor_def alloc_context_def new_context_def put_def
        example_handle_def example_manager_def example_world_def example_context_def)
   apply (simp add: operator_call_with_def assign_arguments_def function_argument_def
        is_lvalue_reference_def decay_def type_id_def is_void_def operation_defs example_defs)
  apply (simp add: future_get_def future_wait_def prepared_def has_result_or_exception_def
        lock_mutex_def unlock_mutex_def is_void_def operation_defs example_defs)
  done



text \<open>
  C2, as amended. Constructing \<open>future<T>\<close> from a non-empty \<open>any_function\<close> throws
  \<open>bad_type_cast\<close> exactly when the storage type \<open>function_result<T>\<close> differs from that of
  the callable's result type, and then leaves the world as it was; otherwise the future
  holds the same context and manager as the \<open>any_function\<close> and the count went up by one.
  Constructing it from an empty \<open>any_function\<close> returns an equal, empty future.
\<close>

theorem future_ctor_type_check:
  assumes "m_context af = Some a" and "m_manager af = Some M" and "heap w a = Some c"
    and "m_counter c \<noteq> 0" and "\<not> operator_bool e"
  shows "(function_result T \<noteq> function_result (Result M) \<longrightarrow>
            future_ctor T af w = throws bad_type_cast w)
       \<and> (function_result T = function_result (Result M) \<longrightarrow>
            (\<exists>f. future_ctor T af w = returns f (put a (acquire c) w) \<and> operator_eq f af))
       \<and> (\<exists>f. future_ctor T e w = returns f w \<and> operator_eq f e)"
proof -
  let ?h = "\<lparr>m_context = Some a, m_manager = Some M\<rparr> :: ('a, 'b) af_ctx_manager"
  have h: "m_context ?h = Some a" "m_manager ?h = Some M"
    by simp_all
  have nonempty: "operator_bool af"
    using assms by (simp add: operator_bool_def)
  have live1: "heap (put a (acquire c) w) a = Some (acquire c)"
    by (simp add: heap_put)
  have copy: "af_ctx_manager_copy af w = returns ?h (put a (acquire c) w)"
    using nonempty assms(1,2)
    by (simp add: af_ctx_manager_copy_def Let_def call_with_live [OF h assms(3)])
  have check: "is_result_of_type T af (put a (acquire c) w)
                = returns (function_result T = function_result (Result M)) (put a (acquire c) w)"
    by (auto simp: is_result_of_type_def call_with_live [OF assms(1,2) live1] type_id_inject)
  have dtor: "af_ctx_manager_dtor ?h (put a (acquire c) w) = returns () w"
  proof -
    have "call_with ?h down_ref_counter null_id None (put a (acquire c) w)
            = returns (ctx_pointer, None) ((put a (acquire c) w)\<lparr>heap := (heap (put a (acquire c) w))(a := Some c)\<rparr>)"
      using assms(4) by (simp add: call_with_live [OF h live1] release_acquire)
    also have "(put a (acquire c) w)\<lparr>heap := (heap (put a (acquire c) w))(a := Some c)\<rparr> = w"
      using assms(3) by (simp add: put_def fun_upd_idem)
    finally show ?thesis
      by (simp add: af_ctx_manager_dtor_def operator_bool_def)
  qed
  have 1: "function_result T \<noteq> function_result (Result M) \<longrightarrow>
            future_ctor T af w = throws bad_type_cast w"
    using nonempty by (simp add: future_ctor_def copy check dtor)
  have 2: "function_result T = function_result (Result M) \<longrightarrow>
            (\<exists>f. future_ctor T af w = returns f (put a (acquire c) w) \<and> operator_eq f af)"
    using nonempty assms(1,2) by (simp add: future_ctor_def copy check operator_eq_def)
  have 3: "\<exists>f. future_ctor T e w = returns f w \<and> operator_eq f e"
    using assms(5) by (simp add: future_ctor_def af_ctx_manager_copy_def operator_eq_def)
  from 1 2 3 show ?thesis by blast
qed

theorem future_ctor_type_check_witness:
  "future_ctor (cpp_type (object 1) False False no_reference) (example_handle shared_tag)
       (example_world example_context)
     = throws bad_type_cast (example_world example_context)
   \<and> future_ctor (cpp_type (object 0) False False rvalue_reference) (example_handle shared_tag)
       (example_world example_context)
     = returns (example_handle shared_tag) (example_world (example_context\<lparr>m_counter := 2\<rparr>))
   \<and> future_ctor int_type af_ctx_manager_default (example_world example_context)
     = returns af_ctx_manager_default (example_world example_context)"
proof -
  let ?h = "example_handle shared_tag"
  let ?w = "example_world example_context"
  have 1: "m_context ?h = Some 0" "m_manager ?h = Some (example_manager shared_tag)"
    "heap ?w 0 = Some example_context" "m_counter example_context \<noteq> 0"
    "\<not> operator_bool (af_ctx_manager_default :: (nat, int) af_ctx_manager)"
    by (simp_all add: example_defs operator_bool_def af_ctx_manager_default_def)
  have 2: "function_result (cpp_type (object 1) False False no_reference)
             \<noteq> function_result (Result (example_manager shared_tag))"
    "function_result (cpp_type (object 0) False False rvalue_reference)
             = function_result (Result (example_manager shared_tag))"
    by (simp_all add: function_result_def is_void_def is_lvalue_reference_def decay_def example_defs)
  from future_ctor_type_check [OF 1, of "cpp_type (object 1) False False no_reference"]
    future_ctor_type_check [OF 1, of "cpp_type (object 0) False False rvalue_reference"]
    future_ctor_type_check [OF 1, of int_type] 2
  show ?thesis
    by (auto simp: operator_eq_def acquire_def put_def example_defs af_ctx_manager_default_def)
qed

text \<open>
  C2 as stated fails: the callable returns \<open>int\<close>, and \<open>future<const int>\<close> is constructed
  without an exception, because both types decay to \<open>int\<close>.
\<close>

theorem future_ctor_accepts_const_int:
  "future_ctor (cpp_type (object 0) True False no_reference) (example_handle unsafe_tag)
       (example_world example_context)
     = returns (example_handle unsafe_tag) (example_world (example_context\<lparr>m_counter := 2\<rparr>))
   \<and> Result (example_manager unsafe_tag) \<noteq> cpp_type (object 0) True False no_reference"
  by (simp add: future_ctor_def af_ctx_manager_copy_def is_result_of_type_def operator_bool_def
      acquire_def function_result_def is_void_def is_lvalue_reference_def decay_def type_id_def
      Let_def operation_defs example_defs)






text \<open>
  C5 fails on copy assignment. When a handle of a context \<open>a\<close> is assigned a copy of a
  handle of another context \<open>b\<close>, the count of \<open>b\<close> goes up by one, but \<open>a\<close> is released
  twice: by \<open>operator=\<close> itself and by the destructor of the temporary it swapped with.
  (Here the first release does not yet destroy \<open>a\<close>; when it does, the second one works
  on a context that is gone.)
\<close>

theorem copy_assignment_releases_twice:
  assumes "m_context h = Some a" and "m_manager h = Some M" and "heap w a = Some c"
    and "m_context other = Some b" and "m_manager other = Some N" and "heap w b = Some d"
    and "a \<noteq> b" and "m_counter c \<noteq> 1"
  shows "af_ctx_manager_assign_copy False h other w =
           returns (h\<lparr>m_context := Some b, m_manager := Some N\<rparr>)
             (w\<lparr>heap := (heap w)(b \<mapsto> acquire d,
                                   a := release (c\<lparr>m_counter := m_counter c - 1\<rparr>))\<rparr>)"
proof -
  let ?w1 = "w\<lparr>heap := (heap w)(a \<mapsto> c\<lparr>m_counter := m_counter c - 1\<rparr>)\<rparr>"
  let ?tmp = "\<lparr>m_context = Some b, m_manager = Some N\<rparr> :: ('a, 'b) af_ctx_manager"
  have first: "call_with h down_ref_counter null_id None w = returns (ctx_pointer, None) ?w1"
    using assms(8) by (simp add: call_with_live [OF assms(1-3)] release_def Let_def)
  have live_b: "heap ?w1 b = Some d"
    using assms by simp
  have tmp: "m_context ?tmp = Some b" "m_manager ?tmp = Some N"
    by simp_all
  have copy: "af_ctx_manager_copy other ?w1 = returns ?tmp (put b (acquire d) ?w1)"
    using assms(4,5)
    by (simp add: af_ctx_manager_copy_def Let_def operator_bool_def call_with_live [OF tmp live_b])
  have live_a: "heap (put b (acquire d) ?w1) a = Some (c\<lparr>m_counter := m_counter c - 1\<rparr>)"
    using assms(7) by (simp add: heap_put)
  let ?old = "\<lparr>m_context = Some a, m_manager = Some M\<rparr> :: ('a, 'b) af_ctx_manager"
  have old: "m_context ?old = Some a" "m_manager ?old = Some M"
    by simp_all
  have second: "call_with ?old down_ref_counter null_id None (put b (acquire d) ?w1)
          = returns (ctx_pointer, None)
             (w\<lparr>heap := (heap w)(b \<mapsto> acquire d,
                                   a := release (c\<lparr>m_counter := m_counter c - 1\<rparr>))\<rparr>)"
    using assms(7) by (simp add: call_with_live [OF old live_a]) (simp add: put_def fun_upd_twist)
  show ?thesis
    using assms(1,2,4,5,7)
    by (simp add: af_ctx_manager_assign_copy_def operator_bool_def first copy
        af_ctx_manager_assign_move_def af_ctx_manager_swap_def af_ctx_manager_dtor_def second)
qed

text \<open>
  A context with two owners is destroyed by one copy assignment, although its other owner
  still refers to it.
\<close>

theorem copy_assignment_releases_twice_witness:
  "af_ctx_manager_assign_copy False (example_handle unsafe_tag)
       ((example_handle unsafe_tag)\<lparr>m_context := Some 1\<rparr>)
       \<lparr>heap = Map.empty(0 \<mapsto> example_context\<lparr>m_counter := 2\<rparr>, 1 \<mapsto> example_context),
        g_waitable = \<lparr>m_mu = False, m_cv = 0\<rparr>\<rparr>
     = returns ((example_handle unsafe_tag)\<lparr>m_context := Some 1\<rparr>)
         \<lparr>heap = Map.empty(1 \<mapsto> example_context\<lparr>m_counter := 2\<rparr>),
          g_waitable = \<lparr>m_mu = False, m_cv = 0\<rparr>\<rparr>"
proof -
  let ?h = "example_handle unsafe_tag"
  let ?w = "\<lparr>heap = Map.empty(0 \<mapsto> example_context\<lparr>m_counter := 2\<rparr>, 1 \<mapsto> example_context),
        g_waitable = \<lparr>m_mu = False, m_cv = 0\<rparr>\<rparr> :: (nat, int) world"
  have 1: "m_context ?h = Some 0" "m_manager ?h = Some (example_manager unsafe_tag)"
    "heap ?w 0 = Some (example_context\<lparr>m_counter := 2\<rparr>)"
    "m_context (?h\<lparr>m_context := Some 1\<rparr>) = Some 1"
    "m_manager (?h\<lparr>m_context := Some 1\<rparr>) = Some (example_manager unsafe_tag)"
    "heap ?w 1 = Some example_context" "(0 :: nat) \<noteq> 1"
    "m_counter (example_context\<lparr>m_counter := 2\<rparr>) \<noteq> 1"
    by (simp_all add: example_handle_def)
  from copy_assignment_releases_twice [OF 1]
  show ?thesis
    by (simp add: release_def acquire_def example_handle_def example_context_def fun_upd_twist)
qed

text \<open>
  C8, as amended. Let the context hold a result or an exception. A \<open>call\<close> action that
  returns has left the callable, the arguments and the result as they were; with every
  argument slot populated it returned the context and left the exception slot as it was
  too; with an empty argument slot it returned \<open>nullptr\<close>, and the exception slot, which
  was empty, now holds \<open>missing_argument\<close>. With every argument slot populated the action
  does return (when the mutex of the waitable can be locked); with an empty argument slot
  and a stored exception it calls \<open>std::terminate\<close>.
\<close>

theorem call_after_completion:
  assumes "m_context this = Some a" and "m_manager this = Some M" and "heap w a = Some c"
    and "m_result c \<noteq> None \<or> m_exception c \<noteq> None"
  shows "(call_with this call null_id None w = returns r w' \<longrightarrow>
            (\<exists>c'. heap w' a = Some c' \<and> m_callable c' = m_callable c \<and> m_result c' = m_result c
               \<and> m_arguments c' = m_arguments c
               \<and> (if has_values (m_arguments c)
                   then fst r = ctx_pointer \<and> m_exception c' = m_exception c
                   else fst r = nullptr \<and> m_exception c = None
                        \<and> m_exception c' = Some missing_argument)))
       \<and> (has_values (m_arguments c) \<and> lock_waitable (Context M) (g_waitable w) \<noteq> None \<longrightarrow>
            (\<exists>n w1. call_with this call null_id None w = returns (ctx_pointer, n) w1))
       \<and> (\<not> has_values (m_arguments c) \<and> m_exception c \<noteq> None \<longrightarrow>
            call_with this call null_id None w = terminate)"
proof -
  have fin: "completed c" using assms(4) by (simp add: completed_def)
  have 1: "call_with this call null_id None w = returns r w' \<longrightarrow>
            (\<exists>c'. heap w' a = Some c' \<and> m_callable c' = m_callable c \<and> m_result c' = m_result c
               \<and> m_arguments c' = m_arguments c
               \<and> (if has_values (m_arguments c)
                   then fst r = ctx_pointer \<and> m_exception c' = m_exception c
                   else fst r = nullptr \<and> m_exception c = None
                        \<and> m_exception c' = Some missing_argument))"
  proof
    assume r: "call_with this call null_id None w = returns r w'"
    then obtain p s where s: "call_case M c (g_waitable w) = returns p s"
      and w': "w' = (put a (fst s) w)\<lparr>g_waitable := snd s\<rparr>" and p: "fst r = p"
      by (auto simp: call_with_call_live [OF assms(1-3)] into_world_returns_iff)
    from call_case_completed [OF fin s] w' p show
      "\<exists>c'. heap w' a = Some c' \<and> m_callable c' = m_callable c \<and> m_result c' = m_result c
               \<and> m_arguments c' = m_arguments c
               \<and> (if has_values (m_arguments c)
                   then fst r = ctx_pointer \<and> m_exception c' = m_exception c
                   else fst r = nullptr \<and> m_exception c = None
                        \<and> m_exception c' = Some missing_argument)"
      by (intro exI [of _ "fst s"]) (simp add: heap_put)
  qed
  have 2: "has_values (m_arguments c) \<and> lock_waitable (Context M) (g_waitable w) \<noteq> None \<longrightarrow>
            (\<exists>n w1. call_with this call null_id None w = returns (ctx_pointer, n) w1)"
    using fin
    by (cases "Context M")
       (auto simp: call_with_call_live [OF assms(1-3)] call_case_def completed_def notifier_dtor_def
          split: if_splits)
  have 3: "\<not> has_values (m_arguments c) \<and> m_exception c \<noteq> None \<longrightarrow>
            call_with this call null_id None w = terminate"
    by (auto simp: call_with_call_live [OF assms(1-3)] call_case_def store_exception_def)
  from 1 2 3 show ?thesis by blast
qed

theorem call_after_completion_witness:
  "call_with (example_handle waitable_tag) call null_id None
       (example_world (example_context\<lparr>m_arguments := [Some 5], m_callable := Some 1,
                                        m_result := Some (result_object 5)\<rparr>))
     = returns (ctx_pointer, None)
         (example_world (example_context\<lparr>m_arguments := [Some 5], m_callable := Some 1,
            m_result := Some (result_object 5), m_waitable := \<lparr>m_mu = False, m_cv = 1\<rparr>\<rparr>))
   \<and> call_with (example_handle waitable_tag) call null_id None
       (example_world (example_context\<lparr>m_exception := Some (thrown 3)\<rparr>))
     = terminate"
proof -
  let ?h = "example_handle waitable_tag"
  let ?c = "example_context\<lparr>m_arguments := [Some 5], m_callable := Some 1,
                                        m_result := Some (result_object 5)\<rparr>"
  let ?d = "example_context\<lparr>m_exception := Some (thrown 3)\<rparr>"
  have 1: "m_context ?h = Some 0" "m_manager ?h = Some (example_manager waitable_tag)"
    by (simp_all add: example_defs)
  have 2: "heap (example_world ?c) 0 = Some ?c" "m_result ?c \<noteq> None \<or> m_exception ?c \<noteq> None"
    by (simp_all add: example_defs)
  have 3: "heap (example_world ?d) 0 = Some ?d" "m_result ?d \<noteq> None \<or> m_exception ?d \<noteq> None"
    by (simp_all add: example_defs)
  have 4: "\<not> has_values (m_arguments ?d) \<and> m_exception ?d \<noteq> None"
    by (simp add: has_values_def example_defs)
  have 5: "call_with ?h call null_id None (example_world ?c)
     = returns (ctx_pointer, None)
         (example_world (example_context\<lparr>m_arguments := [Some 5], m_callable := Some 1,
            m_result := Some (result_object 5), m_waitable := \<lparr>m_mu = False, m_cv = 1\<rparr>\<rparr>))"
    by (simp add: operation_defs example_defs)
  from call_after_completion [OF 1 3] 4 call_after_completion [OF 1 2] 5
  show ?thesis by blast
qed

text \<open>
  C8 as stated fails when an argument slot is empty: the missing-argument check comes before
  the re-entry check. After a result the exception slot is written; after an exception the
  action does not return.
\<close>

theorem call_after_completion_missing_argument:
  "call_with (example_handle unsafe_tag) call null_id None
       (example_world (example_context\<lparr>m_result := Some (result_object 7)\<rparr>))
     = returns (nullptr, None)
         (example_world (example_context\<lparr>m_result := Some (result_object 7),
                                          m_exception := Some missing_argument\<rparr>))
   \<and> call_with (example_handle unsafe_tag) call null_id None
       (example_world (example_context\<lparr>m_exception := Some missing_argument\<rparr>))
     = terminate"
  by (simp add: operation_defs example_defs)




text \<open>
  C10. When an argument slot is empty and the exception slot is empty, the \<open>call\<close> action
  returns \<open>nullptr\<close> and changes nothing but the exception slot, which then holds
  \<open>missing_argument\<close> (the callable, which would count an invocation, is as it was), and
  \<open>operator()()\<close> returns \<open>call_result::exception\<close>.
\<close>

theorem call_missing_argument:
  assumes "m_context this = Some a" and "m_manager this = Some M" and "heap w a = Some c"
    and "\<not> has_values (m_arguments c)" and "m_exception c = None"
    and "unlocked (Context M) c"
  shows "call_with this call null_id None w
           = returns (nullptr, None) (put a (c\<lparr>m_exception := Some missing_argument\<rparr>) w)
       \<and> operator_call this w
           = returns exception (put a (c\<lparr>m_exception := Some missing_argument\<rparr>) w)"
proof -
  have 1: "call_with this call null_id None w
           = returns (nullptr, None) (put a (c\<lparr>m_exception := Some missing_argument\<rparr>) w)"
    by (simp add: call_with_call_live [OF assms(1-3)] call_case_missing assms)
  have 2: "operator_call this w
           = returns exception (put a (c\<lparr>m_exception := Some missing_argument\<rparr>) w)"
    using assms
    by (cases "Context M")
       (simp_all add: operator_call_def call_guard_def call_guard_dtor_def call_with_def
          core_manager_def call_case_missing unlocked_def heap_put put_put g_waitable_put
          lock_idem)
  from 1 2 show ?thesis by simp
qed

theorem call_missing_argument_witness:
  "call_with (example_handle unsafe_tag) call null_id None (example_world example_context)
     = returns (nullptr, None)
         (example_world (example_context\<lparr>m_exception := Some missing_argument\<rparr>))
   \<and> operator_call (example_handle unsafe_tag) (example_world example_context)
     = returns exception (example_world (example_context\<lparr>m_exception := Some missing_argument\<rparr>))"
proof -
  let ?h = "example_handle unsafe_tag"
  let ?w = "example_world example_context"
  have 1: "m_context ?h = Some 0" "m_manager ?h = Some (example_manager unsafe_tag)"
    "heap ?w 0 = Some example_context" "\<not> has_values (m_arguments example_context)"
    "m_exception example_context = None"
    "unlocked (Context (example_manager unsafe_tag)) example_context"
    by (simp_all add: example_defs unlocked_def has_values_def)
  from call_missing_argument [OF 1]
  show ?thesis
    by (simp add: put_def example_world_def)
qed

end
